theory Spec2Isabelle
  imports Main
begin

section \<open>Literal values of the content files\<close>

text \<open>
  The repository holds static data only: JavaScript modules that export an array of object
  literals (the project listings) and markdown posts that start with a YAML metadata header.
  Both are written with the same few kinds of literal: a string, a boolean, and a
  sequence of literals. An object literal and a YAML mapping are association lists from
  property name to value, in the order the properties are written, so that the set of keys,
  their order and a missing key are all visible in the model.

  Strings are byte strings: a character outside ASCII is its UTF-8 bytes, as in the files.
\<close>

datatype val = VStr string | VBool bool | VList "val list"

type_synonym obj = "(string \<times> val) list"

text \<open>Reading a property: \<open>None\<close> where JavaScript gives \<open>undefined\<close> and YAML has no entry.\<close>

definition get_prop :: "obj \<Rightarrow> string \<Rightarrow> val option" where
  "get_prop r k = map_of r k"

definition keys :: "obj \<Rightarrow> string list" where
  "keys r = map fst r"

fun str_of :: "val option \<Rightarrow> string option" where
  "str_of (Some (VStr s)) = Some s"
| "str_of _ = None"

fun bool_of :: "val option \<Rightarrow> bool option" where
  "bool_of (Some (VBool b)) = Some b"
| "bool_of _ = None"

fun str_list_of :: "val option \<Rightarrow> string list option" where
  "str_list_of (Some (VList vs)) =
     (if list_all (\<lambda>v. str_of (Some v) \<noteq> None) vs
      then Some (map (\<lambda>v. the (str_of (Some v))) vs) else None)"
| "str_list_of _ = None"

definition starts_with :: "string \<Rightarrow> string \<Rightarrow> bool" where
  "starts_with p s = (take (length p) s = p)"

definition ends_with :: "string \<Rightarrow> string \<Rightarrow> bool" where
  "ends_with p s = (length p \<le> length s \<and> drop (length s - length p) s = p)"

section \<open>The project listings\<close>

text \<open>
  Three modules declare \<open>const projectsData = [...]\<close> and end with
  \<open>export default projectsData\<close>: \<^verbatim>\<open>src/data/projectsData.js\<close>,
  \<^verbatim>\<open>src/unnamed/part_001\<close> and \<^verbatim>\<open>src/unnamed/part_002\<close>. A template literal
  without substitutions is the string between its backquotes, line breaks and indentation
  included.
\<close>

definition projectsData :: "obj list" where
  "projectsData = [
    [(''title'', VStr ''A Search Engine''),
     (''description'', VStr (''What if you could look up any information in the world? Webpages, images, videos''
        @ [CHR 0x0A] @ ''    and more. Google has many features to help you find exactly what you're looking''
        @ [CHR 0x0A] @ ''    for.'')),
     (''imgSrc'', VStr ''/static/images/google.png''),
     (''href'', VStr ''https://www.google.com'')],
    [(''title'', VStr ''Blockchain in Go''),
     (''description'', VStr ''A simplified blockchain implementation in Golang''),
     (''imgSrc'', VStr ''/static/images/blockchain.jpg''),
     (''href'', VStr ''https://github.com/noodleslove/blockchain-go'')]
  ]"

definition projectsData_part_001 :: "obj list" where
  "projectsData_part_001 = [
    [(''title'', VStr ''House of Representatives Analysis''),
     (''description'', VStr ''This project uses public data about the stock trades made by members of the US House of Representatives.''),
     (''imgSrc'', VStr ''/static/images/stock.png''),
     (''href'', VStr ''https://github.com/noodleslove/House-of-Representative-Analysis-I'')],
    [(''title'', VStr ''Blockchain in Go''),
     (''description'', VStr ''A simplified blockchain implementation in Golang''),
     (''imgSrc'', VStr ''/static/images/blockchain.jpg''),
     (''href'', VStr ''https://github.com/noodleslove/blockchain-go'')]
  ]"

definition projectsData_part_002 :: "obj list" where
  "projectsData_part_002 = [
    [(''title'', VStr ''UCSD CSES Website''),
     (''description'', VStr ''A website for UCSD CSES, a student organization at UC San Diego.''),
     (''imgSrc'', VStr ''/static/images/ucsd-cses.jpg''),
     (''href'', VStr ''https://github.com/Will-Hsu/cses_webdev'')],
    [(''title'', VStr ''NutriPal''),
     (''description'', VStr ''NutriPal is a user-friendly diet information website that aims to simplify the daily diet logging process.''),
     (''imgSrc'', VStr ''/static/images/nutri-pal.jpg''),
     (''href'', VStr ''https://github.com/noodleslove/nutriPal'')],
    [(''title'', VStr ''LFM Recommender System''),
     (''description'', VStr ''A Yelp Recommender System using Latent Factor Collaborative Filtering to provide personalized business recommendations through a web application, enhancing user experience and engagement.''),
     (''imgSrc'', VStr ''/static/images/lfm.jpg''),
     (''href'', VStr ''https://drive.google.com/file/d/1cbem5KYzXJhihUirzvo_5JAMdW6Dw8LF/view?usp=sharing'')],
    [(''title'', VStr ''House of Representatives Analysis II''),
     (''description'', VStr ''This project analyzes stock trades made by members of the 116th U.S. House of Representatives, combining it with information on their political affiliation to evaluate missingness associations in the dataset.''),
     (''imgSrc'', VStr ''/static/images/stock-2.jpg''),
     (''href'', VStr ''https://drive.google.com/file/d/10AgiJjXxIM7ZC-H-ScfD9iZHK3lsnAdt/view?usp=sharing'')],
    [(''title'', VStr ''House of Representatives Analysis I''),
     (''description'', VStr ''This project analyzes stock trades made by members of the 116th U.S. House of Representatives, combining it with information on their political affiliation to evaluate missingness associations in the dataset.''),
     (''imgSrc'', VStr ''/static/images/stock.png''),
     (''href'', VStr ''https://drive.google.com/file/d/1M3fHZAFZXAAp5A9QwROB91KcIcK2SG03/view?usp=sharing'')],
    [(''title'', VStr ''Blockchain in Go''),
     (''description'', VStr ''A simplified blockchain implementation in Golang''),
     (''imgSrc'', VStr ''/static/images/blockchain.jpg''),
     (''href'', VStr ''https://github.com/noodleslove/blockchain-go'')],
    [(''title'', VStr ''Jable Tv Notification Service''),
     (''description'', VStr ''An awesome web scraper powered by CloudScraper to collect video data from jable.tv''),
     (''imgSrc'', VStr ''/static/images/jable.png''),
     (''href'', VStr ''https://github.com/noodleslove/jable-py'')]
  ]"

text \<open>The modules, and what each one exports by default.\<close>

datatype projects_module = ProjectsData_js | Part_001 | Part_002

fun default_export :: "projects_module \<Rightarrow> obj list" where
  "default_export ProjectsData_js = projectsData"
| "default_export Part_001 = projectsData_part_001"
| "default_export Part_002 = projectsData_part_002"

subsection \<open>Checks on a project record\<close>

text \<open>
  A syntactic check of absolute http and https URLs after RFC 3986:
  \<open>scheme "://" host [":" port] path ["?" query] ["#" fragment]\<close>, the host a non-empty
  registered name, a percent sign always followed by two hexadecimal digits. The checker
  is on the strict side (no user information, no IP literal in brackets), so a string it
  accepts is a URL under the full grammar as well.
\<close>

definition ALPHA :: string where
  "ALPHA = ''abcdefghijklmnopqrstuvwxyzABCDEFGHIJKLMNOPQRSTUVWXYZ''"

definition DIGIT :: string where
  "DIGIT = ''0123456789''"

definition HEXDIG :: string where
  "HEXDIG = DIGIT @ ''abcdefABCDEF''"

definition unreserved :: string where
  "unreserved = ALPHA @ DIGIT @ ''-._~''"

definition sub_delims :: string where
  "sub_delims = ''!$&'()*+,;=''"

definition pchar :: string where
  "pchar = unreserved @ sub_delims @ '':@''"

fun pct_encoded_ok :: "string \<Rightarrow> bool" where
  "pct_encoded_ok [] = True"
| "pct_encoded_ok (c # cs) =
     ((if c = CHR ''%''
       then (case cs of h1 # h2 # _ \<Rightarrow> h1 \<in> set HEXDIG \<and> h2 \<in> set HEXDIG | _ \<Rightarrow> False)
       else True) \<and> pct_encoded_ok cs)"

definition component :: "string \<Rightarrow> string \<Rightarrow> bool" where
  "component allowed s = (list_all (\<lambda>c. c \<in> set allowed \<or> c = CHR ''%'') s \<and> pct_encoded_ok s)"

definition strip_scheme :: "string \<Rightarrow> string option" where
  "strip_scheme s =
     (if starts_with ''http://'' s then Some (drop 7 s)
      else if starts_with ''https://'' s then Some (drop 8 s)
      else None)"

definition valid_url :: "string \<Rightarrow> bool" where
  "valid_url s =
     (case strip_scheme s of
        None \<Rightarrow> False
      | Some rest \<Rightarrow>
          (let authority = takeWhile (\<lambda>c. c \<notin> set ''/?#'') rest;
               tail = dropWhile (\<lambda>c. c \<notin> set ''/?#'') rest;
               host = takeWhile (\<lambda>c. c \<noteq> CHR '':'') authority;
               port = dropWhile (\<lambda>c. c \<noteq> CHR '':'') authority;
               path = takeWhile (\<lambda>c. c \<notin> set ''?#'') tail;
               rest' = dropWhile (\<lambda>c. c \<notin> set ''?#'') tail;
               query = takeWhile (\<lambda>c. c \<noteq> CHR ''#'') rest';
               fragment = dropWhile (\<lambda>c. c \<noteq> CHR ''#'') rest'
           in host \<noteq> [] \<and> component (unreserved @ sub_delims) host
              \<and> list_all (\<lambda>c. c \<in> set DIGIT) (drop 1 port)
              \<and> component (pchar @ ''/'') path
              \<and> component (pchar @ ''/?'') (drop 1 query)
              \<and> component (pchar @ ''/?'') (drop 1 fragment)))"

definition title_nonempty :: "obj \<Rightarrow> bool" where
  "title_nonempty r = (case str_of (get_prop r ''title'') of Some t \<Rightarrow> t \<noteq> [] | None \<Rightarrow> False)"

definition href_valid_url :: "obj \<Rightarrow> bool" where
  "href_valid_url r = (case str_of (get_prop r ''href'') of Some u \<Rightarrow> valid_url u | None \<Rightarrow> False)"

definition imgSrc_static_image :: "obj \<Rightarrow> bool" where
  "imgSrc_static_image r =
     (case str_of (get_prop r ''imgSrc'') of
        Some p \<Rightarrow> starts_with ''/static/images/'' p \<and> (ends_with ''.png'' p \<or> ends_with ''.jpg'' p)
      | None \<Rightarrow> False)"

definition href_https :: "obj \<Rightarrow> bool" where
  "href_https r = (case str_of (get_prop r ''href'') of Some u \<Rightarrow> starts_with ''https://'' u | None \<Rightarrow> False)"

definition titles :: "obj list \<Rightarrow> string option list" where
  "titles rs = map (\<lambda>r. str_of (get_prop r ''title'')) rs"

section \<open>The posts\<close>

text \<open>
  A post is a markdown file that opens with a YAML mapping between two \<open>---\<close> lines. The
  mapping is read as a YAML reader does: a single-quoted scalar is the string between the
  quotes, the plain scalars \<open>true\<close> and \<open>false\<close> are booleans, any other plain scalar is
  the string as written, and \<open>[a, b]\<close> is a sequence. The body of a post is prose and is
  not modelled.

  Seven headers occur under \<^verbatim>\<open>src/\<close>. Two files hold a second document after a
  separator line: \<^verbatim>\<open>src/data/blog/blockchain/blockchain-in-go/part-6.md\<close> the post
  ``Part 5'' from line 494 on, and \<^verbatim>\<open>src/data/blog/blockchain-in-go/part-6.md\<close> the
  post ``Part 3'' from line 331 on.
\<close>

datatype post_file =
    Blog_blockchain_in_go_1
  | Blog_blockchain_blockchain_in_go_part_6
  | Blog_blockchain_blockchain_in_go_part_6_second
  | Blog_blockchain_in_go_part_4
  | Blog_blockchain_in_go_part_6
  | Blog_blockchain_in_go_part_6_second
  | Unnamed_part_000

text \<open>Where each header starts: the file and the line of its opening \<open>---\<close>.\<close>

fun location :: "post_file \<Rightarrow> string \<times> nat" where
  "location Blog_blockchain_in_go_1 = (''src/data/blog/blockchain-in-go-1.md'', 1)"
| "location Blog_blockchain_blockchain_in_go_part_6 = (''src/data/blog/blockchain/blockchain-in-go/part-6.md'', 1)"
| "location Blog_blockchain_blockchain_in_go_part_6_second = (''src/data/blog/blockchain/blockchain-in-go/part-6.md'', 494)"
| "location Blog_blockchain_in_go_part_4 = (''src/data/blog/blockchain-in-go/part-4.md'', 1)"
| "location Blog_blockchain_in_go_part_6 = (''src/data/blog/blockchain-in-go/part-6.md'', 1)"
| "location Blog_blockchain_in_go_part_6_second = (''src/data/blog/blockchain-in-go/part-6.md'', 331)"
| "location Unnamed_part_000 = (''src/unnamed/part_000'', 1)"

text \<open>The right single quotation mark U+2019, in UTF-8.\<close>

definition rsquo :: string where
  "rsquo = [CHR 0xE2, CHR 0x80, CHR 0x99]"

fun frontmatter :: "post_file \<Rightarrow> obj" where
  "frontmatter Blog_blockchain_in_go_1 =
    [(''title'', VStr ''Building blockchain from scratch in Go. Part 1: Basic Prototype''),
     (''date'', VStr ''2022-08-30''),
     (''tags'', VList [VStr ''blockchain'', VStr ''code'', VStr ''go'']),
     (''draft'', VBool False),
     (''summary'', VStr ''In this series of articles we'll build a simplified cryptocurrency that's based on a simple blockchain implementation.''),
     (''authors'', VList [VStr ''eddieho'', VStr ''sparrowhawk''])]"
| "frontmatter Blog_blockchain_blockchain_in_go_part_6 =
    [(''title'', VStr ''Building blockchain in Go. Part 6: Transactions 2''),
     (''date'', VStr ''2022-09-16''),
     (''tags'', VList [VStr ''blockchain'', VStr ''code'', VStr ''go'']),
     (''lastmod'', VStr ''2022-09-16''),
     (''draft'', VBool False),
     (''summary'', VStr (''In this series of articles we'' @ rsquo @ ''ll build a simplified cryptocurrency that'' @ rsquo @ ''s based on a simple blockchain implementation.'')),
     (''authors'', VList [VStr ''eddieho''])]"
| "frontmatter Blog_blockchain_blockchain_in_go_part_6_second =
    [(''title'', VStr ''Building blockchain in Go. Part 5: Addresses''),
     (''date'', VStr ''2022-09-07''),
     (''tags'', VList [VStr ''blockchain'', VStr ''code'', VStr ''go'']),
     (''lastmod'', VStr ''2022-09-08''),
     (''draft'', VBool False),
     (''summary'', VStr (''In this series of articles we'' @ rsquo @ ''ll build a simplified cryptocurrency that'' @ rsquo @ ''s based on a simple blockchain implementation.'')),
     (''authors'', VList [VStr ''eddieho''])]"
| "frontmatter Blog_blockchain_in_go_part_4 =
    [(''title'', VStr ''Building blockchain in Go. Part 4: Transactions 1''),
     (''date'', VStr ''2022-09-04''),
     (''tags'', VList [VStr ''blockchain'', VStr ''code'', VStr ''go'']),
     (''lastmod'', VStr ''2022-09-04''),
     (''draft'', VBool False),
     (''summary'', VStr (''In this series of articles we'' @ rsquo @ ''ll build a simplified cryptocurrency that'' @ rsquo @ ''s based on a simple blockchain implementation.'')),
     (''authors'', VList [VStr ''eddieho''])]"
| "frontmatter Blog_blockchain_in_go_part_6 =
    [(''title'', VStr ''Building blockchain in Go. Part 6: Transactions 2''),
     (''date'', VStr ''2022-09-16''),
     (''tags'', VList [VStr ''blockchain'', VStr ''code'', VStr ''go'']),
     (''lastmod'', VStr ''2022-09-16''),
     (''draft'', VBool True),
     (''summary'', VStr (''In this series of articles we'' @ rsquo @ ''ll build a simplified cryptocurrency that'' @ rsquo @ ''s based on a simple blockchain implementation.'')),
     (''authors'', VList [VStr ''eddieho''])]"
| "frontmatter Blog_blockchain_in_go_part_6_second =
    [(''title'', VStr ''Building blockchain in Go. Part 3: Persistence and CLI''),
     (''date'', VStr ''2022-09-02''),
     (''tags'', VList [VStr ''blockchain'', VStr ''code'', VStr ''go'']),
     (''draft'', VBool False),
     (''summary'', VStr ''In this series of articles we'll build a simplified cryptocurrency that's based on a simple blockchain implementation.''),
     (''authors'', VList [VStr ''eddieho''])]"
| "frontmatter Unnamed_part_000 =
    [(''title'', VStr ''Recaps of Machine Learning: Linear Regression''),
     (''date'', VStr ''2023-07-15''),
     (''tags'', VList [VStr ''machine learning'', VStr ''data science'', VStr ''notes'', VStr ''math'']),
     (''lastmod'', VStr ''2023-07-15''),
     (''draft'', VBool False),
     (''summary'', VStr ''Exploring linear regression and regularization techniques, this blog recaps the fundamental understanding of linear regression.''),
     (''authors'', VList [VStr ''eddieho'', VStr ''chatgpt''])]"

subsection \<open>Checks on a metadata header\<close>

definition well_formed_header :: "obj \<Rightarrow> bool" where
  "well_formed_header h =
     (distinct (keys h)
      \<and> list_all (\<lambda>k. k \<in> set (keys h)) [''title'', ''date'', ''tags'', ''draft'', ''summary'', ''authors'']
      \<and> str_of (get_prop h ''title'') \<noteq> None
      \<and> str_of (get_prop h ''summary'') \<noteq> None
      \<and> str_list_of (get_prop h ''tags'') \<noteq> None
      \<and> str_list_of (get_prop h ''authors'') \<noteq> None
      \<and> bool_of (get_prop h ''draft'') \<noteq> None)"

definition tags_ok :: "obj \<Rightarrow> bool" where
  "tags_ok h =
     (case str_list_of (get_prop h ''tags'') of
        Some ts \<Rightarrow> list_all (\<lambda>t. t \<noteq> []) ts \<and> distinct ts
      | None \<Rightarrow> False)"

text \<open>Calendar dates \<open>YYYY-MM-DD\<close> of the Gregorian calendar.\<close>

definition digit_val :: "char \<Rightarrow> nat option" where
  "digit_val c = map_of (zip DIGIT [0, 1, 2, 3, 4, 5, 6, 7, 8, 9]) c"

fun number_from :: "nat \<Rightarrow> string \<Rightarrow> nat option" where
  "number_from n [] = Some n"
| "number_from n (c # cs) =
     (case digit_val c of None \<Rightarrow> None | Some d \<Rightarrow> number_from (10 * n + d) cs)"

definition leap_year :: "nat \<Rightarrow> bool" where
  "leap_year y = (if y mod 400 = 0 then True else if y mod 100 = 0 then False else y mod 4 = 0)"

definition days_in_month :: "nat \<Rightarrow> nat \<Rightarrow> nat" where
  "days_in_month y m =
     (if m \<in> set [1, 3, 5, 7, 8, 10, 12] then 31
      else if m \<in> set [4, 6, 9, 11] then 30
      else if m = 2 then (if leap_year y then 29 else 28)
      else 0)"

definition valid_date :: "string \<Rightarrow> bool" where
  "valid_date s =
     (length s = 10 \<and> take 1 (drop 4 s) = ''-'' \<and> take 1 (drop 7 s) = ''-''
      \<and> (case (number_from 0 (take 4 s), number_from 0 (take 2 (drop 5 s)), number_from 0 (drop 8 s)) of
            (Some y, Some m, Some d) \<Rightarrow> 1 \<le> m \<and> m \<le> 12 \<and> 1 \<le> d \<and> d \<le> days_in_month y m
          | _ \<Rightarrow> False))"

definition date_field_ok :: "val option \<Rightarrow> bool" where
  "date_field_ok v = (case str_of v of Some d \<Rightarrow> valid_date d | None \<Rightarrow> False)"

definition dates_ok :: "obj \<Rightarrow> bool" where
  "dates_ok h =
     (date_field_ok (get_prop h ''date'')
      \<and> (case get_prop h ''lastmod'' of None \<Rightarrow> True | Some v \<Rightarrow> date_field_ok (Some v)))"

definition authors_include :: "string \<Rightarrow> obj \<Rightarrow> bool" where
  "authors_include a h =
     (case str_list_of (get_prop h ''authors'') of
        Some as \<Rightarrow> as \<noteq> [] \<and> a \<in> set as
      | None \<Rightarrow> False)"

text \<open>
  The author records of the site are not among the files under \<^verbatim>\<open>src/\<close>, so the
  list of defined authors is a parameter here.
\<close>

definition authors_resolve :: "string list \<Rightarrow> obj \<Rightarrow> bool" where
  "authors_resolve authors_list h =
     (case str_list_of (get_prop h ''authors'') of
        Some as \<Rightarrow> list_all (\<lambda>a. a \<in> set authors_list) as
      | None \<Rightarrow> False)"

section \<open>Project listings: results\<close>

lemma valid_url_hrefs:
  "valid_url ''https://www.google.com''"
  "valid_url ''https://github.com/noodleslove/blockchain-go''"
  "valid_url ''https://github.com/noodleslove/House-of-Representative-Analysis-I''"
  "valid_url ''https://github.com/Will-Hsu/cses_webdev''"
  "valid_url ''https://github.com/noodleslove/nutriPal''"
  "valid_url ''https://drive.google.com/file/d/1cbem5KYzXJhihUirzvo_5JAMdW6Dw8LF/view?usp=sharing''"
  "valid_url ''https://drive.google.com/file/d/10AgiJjXxIM7ZC-H-ScfD9iZHK3lsnAdt/view?usp=sharing''"
  "valid_url ''https://drive.google.com/file/d/1M3fHZAFZXAAp5A9QwROB91KcIcK2SG03/view?usp=sharing''"
  "valid_url ''https://github.com/noodleslove/jable-py''"
  by code_simp+


lemma valid_url_rejects:
  "\<not> valid_url ''github.com/noodleslove/blockchain-go''"
  "\<not> valid_url ''/static/images/google.png''"
  "\<not> valid_url ''https://''"
  "\<not> valid_url ''ftp://example.org/file''"
  "\<not> valid_url ''https://example.org/a b''"
  "\<not> valid_url ''https://example.org/100%''"
  by code_simp+

lemmas project_defs =
  projectsData_def projectsData_part_001_def projectsData_part_002_def get_prop_def keys_def

text \<open>
  C1. In each of the three exported lists, every record has a \<open>title\<close> that is a
  non-empty string and an \<open>href\<close> that is a string accepted by \<open>valid_url\<close>, the check of
  absolute http and https URLs.
\<close>

theorem project_title_nonempty_href_valid:
  "\<forall>r \<in> set (default_export m). title_nonempty r \<and> href_valid_url r"
  by (cases m) (simp_all add: project_defs title_nonempty_def href_valid_url_def valid_url_hrefs)

theorem project_title_nonempty_href_valid_witness:
  "projectsData ! 0 \<in> set (default_export ProjectsData_js)
   \<and> str_of (get_prop (projectsData ! 0) ''title'') = Some ''A Search Engine''
   \<and> str_of (get_prop (projectsData ! 0) ''href'') = Some ''https://www.google.com''
   \<and> title_nonempty (projectsData ! 0) \<and> href_valid_url (projectsData ! 0)"
proof -
  have mem: "projectsData ! 0 \<in> set (default_export ProjectsData_js)"
    by (simp add: projectsData_def)
  have "title_nonempty (projectsData ! 0) \<and> href_valid_url (projectsData ! 0)"
    using project_title_nonempty_href_valid [of ProjectsData_js] mem by blast
  with mem show ?thesis
    by (simp add: project_defs)
qed

text \<open>
  C6. Every record of every exported list has exactly the four properties \<open>title\<close>,
  \<open>description\<close>, \<open>imgSrc\<close> and \<open>href\<close>, each once, and each exported list holds its records
  in the order in which the module writes them, shown here by their titles.
\<close>

theorem project_records_fixed_shape_in_order:
  "(\<forall>r \<in> set (default_export m). keys r = [''title'', ''description'', ''imgSrc'', ''href''])
   \<and> titles (default_export ProjectsData_js) = [Some ''A Search Engine'', Some ''Blockchain in Go'']
   \<and> titles (default_export Part_001) =
       [Some ''House of Representatives Analysis'', Some ''Blockchain in Go'']
   \<and> titles (default_export Part_002) =
       [Some ''UCSD CSES Website'', Some ''NutriPal'', Some ''LFM Recommender System'',
        Some ''House of Representatives Analysis II'', Some ''House of Representatives Analysis I'',
        Some ''Blockchain in Go'', Some ''Jable Tv Notification Service'']"
  by (cases m) (simp_all add: project_defs titles_def)

theorem project_records_fixed_shape_in_order_witness:
  "projectsData_part_002 ! 6 \<in> set (default_export Part_002)
   \<and> keys (projectsData_part_002 ! 6) = [''title'', ''description'', ''imgSrc'', ''href'']"
proof -
  have mem: "projectsData_part_002 ! 6 \<in> set (default_export Part_002)"
    by (simp add: projectsData_part_002_def)
  then show ?thesis
    using project_records_fixed_shape_in_order [of Part_002] by blast
qed

text \<open>
  C9. In every record of every exported list the \<open>imgSrc\<close> is a string that begins with
  \<open>/static/images/\<close> and ends in \<open>.png\<close> or \<open>.jpg\<close>, and the \<open>href\<close> is a string that begins
  with \<open>https://\<close>.
\<close>

theorem project_imgSrc_static_href_https:
  "\<forall>r \<in> set (default_export m). imgSrc_static_image r \<and> href_https r"
  by (cases m)
     (simp_all add: project_defs imgSrc_static_image_def href_https_def starts_with_def ends_with_def)

theorem project_imgSrc_static_href_https_witness:
  "projectsData_part_001 ! 0 \<in> set (default_export Part_001)
   \<and> str_of (get_prop (projectsData_part_001 ! 0) ''imgSrc'') = Some ''/static/images/stock.png''
   \<and> imgSrc_static_image (projectsData_part_001 ! 0) \<and> href_https (projectsData_part_001 ! 0)"
proof -
  have mem: "projectsData_part_001 ! 0 \<in> set (default_export Part_001)"
    by (simp add: projectsData_part_001_def)
  have "imgSrc_static_image (projectsData_part_001 ! 0) \<and> href_https (projectsData_part_001 ! 0)"
    using project_imgSrc_static_href_https [of Part_001] mem by blast
  with mem show ?thesis
    by (simp add: project_defs)
qed

section \<open>Posts: results\<close>

lemma valid_date_headers:
  "valid_date ''2022-08-30''"
  "valid_date ''2022-09-02''"
  "valid_date ''2022-09-04''"
  "valid_date ''2022-09-07''"
  "valid_date ''2022-09-08''"
  "valid_date ''2022-09-16''"
  "valid_date ''2023-07-15''"
  by code_simp+

lemma valid_date_rejects:
  "\<not> valid_date ''2022-02-30''"
  "\<not> valid_date ''2022-13-01''"
  "\<not> valid_date ''2023-02-29''"
  "\<not> valid_date ''2022-9-16''"
  "\<not> valid_date ''16-09-2022''"
  "\<not> valid_date ''2022/09/16''"
  by code_simp+

lemma valid_date_leap_day:
  "valid_date ''2024-02-29''"
  by code_simp

text \<open>
  C2. The header of every post has each key once, has all of \<open>title\<close>, \<open>date\<close>, \<open>tags\<close>,
  \<open>draft\<close>, \<open>summary\<close> and \<open>authors\<close>, and gives \<open>title\<close> and \<open>summary\<close> a string, \<open>tags\<close> and
  \<open>authors\<close> a sequence of strings and \<open>draft\<close> a boolean.
\<close>

theorem frontmatter_well_formed:
  "well_formed_header (frontmatter p)"
  by (cases p) (simp_all add: well_formed_header_def get_prop_def keys_def)

theorem frontmatter_well_formed_witness:
  "str_list_of (get_prop (frontmatter Blog_blockchain_in_go_1) ''authors'') = Some [''eddieho'', ''sparrowhawk'']
   \<and> bool_of (get_prop (frontmatter Blog_blockchain_in_go_1) ''draft'') = Some False
   \<and> well_formed_header (frontmatter Blog_blockchain_in_go_1)"
  using frontmatter_well_formed [of Blog_blockchain_in_go_1]
  by (simp add: get_prop_def)

text \<open>
  C3. In every post the \<open>tags\<close> are a sequence of strings, none of them empty and none of
  them repeated.
\<close>

theorem frontmatter_tags_nonempty_distinct:
  "tags_ok (frontmatter p)"
  by (cases p) (simp_all add: tags_ok_def get_prop_def)

theorem frontmatter_tags_nonempty_distinct_witness:
  "str_list_of (get_prop (frontmatter Unnamed_part_000) ''tags'') =
     Some [''machine learning'', ''data science'', ''notes'', ''math'']
   \<and> tags_ok (frontmatter Unnamed_part_000)"
  using frontmatter_tags_nonempty_distinct [of Unnamed_part_000]
  by (simp add: get_prop_def)

text \<open>
  C5. In every post the \<open>date\<close> is a string that is a calendar date \<open>YYYY-MM-DD\<close>, and so
  is \<open>lastmod\<close> in the posts that have one.
\<close>

theorem frontmatter_dates_well_formed:
  "dates_ok (frontmatter p)"
  by (cases p) (simp_all add: dates_ok_def date_field_ok_def get_prop_def valid_date_headers)

theorem frontmatter_dates_well_formed_witness:
  "get_prop (frontmatter Blog_blockchain_blockchain_in_go_part_6_second) ''date'' = Some (VStr ''2022-09-07'')
   \<and> get_prop (frontmatter Blog_blockchain_blockchain_in_go_part_6_second) ''lastmod'' = Some (VStr ''2022-09-08'')
   \<and> get_prop (frontmatter Blog_blockchain_in_go_part_6_second) ''lastmod'' = None
   \<and> dates_ok (frontmatter Blog_blockchain_blockchain_in_go_part_6_second)
   \<and> dates_ok (frontmatter Blog_blockchain_in_go_part_6_second)"
  using frontmatter_dates_well_formed [of Blog_blockchain_blockchain_in_go_part_6_second]
    frontmatter_dates_well_formed [of Blog_blockchain_in_go_part_6_second]
  by (simp add: get_prop_def)

text \<open>
  C8. The two files \<^verbatim>\<open>src/data/blog/blockchain-in-go/part-6.md\<close> and
  \<^verbatim>\<open>src/data/blog/blockchain/blockchain-in-go/part-6.md\<close> are different files whose
  headers have the same \<open>title\<close> ``Building blockchain in Go. Part 6: Transactions 2'', the
  same \<open>date\<close> and \<open>lastmod\<close> 2022-09-16 and the same \<open>summary\<close>, while \<open>draft\<close> is true in the
  first and false in the second; so the two headers differ although title and date agree.
\<close>

theorem part_6_same_title_date_different_draft:
  "fst (location Blog_blockchain_in_go_part_6) \<noteq> fst (location Blog_blockchain_blockchain_in_go_part_6)
   \<and> get_prop (frontmatter Blog_blockchain_in_go_part_6) ''title'' =
       Some (VStr ''Building blockchain in Go. Part 6: Transactions 2'')
   \<and> get_prop (frontmatter Blog_blockchain_blockchain_in_go_part_6) ''title'' =
       Some (VStr ''Building blockchain in Go. Part 6: Transactions 2'')
   \<and> get_prop (frontmatter Blog_blockchain_in_go_part_6) ''date'' = Some (VStr ''2022-09-16'')
   \<and> get_prop (frontmatter Blog_blockchain_blockchain_in_go_part_6) ''date'' = Some (VStr ''2022-09-16'')
   \<and> get_prop (frontmatter Blog_blockchain_in_go_part_6) ''lastmod'' = Some (VStr ''2022-09-16'')
   \<and> get_prop (frontmatter Blog_blockchain_blockchain_in_go_part_6) ''lastmod'' = Some (VStr ''2022-09-16'')
   \<and> str_of (get_prop (frontmatter Blog_blockchain_in_go_part_6) ''summary'') \<noteq> None
   \<and> get_prop (frontmatter Blog_blockchain_in_go_part_6) ''summary'' =
       get_prop (frontmatter Blog_blockchain_blockchain_in_go_part_6) ''summary''
   \<and> get_prop (frontmatter Blog_blockchain_in_go_part_6) ''draft'' = Some (VBool True)
   \<and> get_prop (frontmatter Blog_blockchain_blockchain_in_go_part_6) ''draft'' = Some (VBool False)
   \<and> frontmatter Blog_blockchain_in_go_part_6 \<noteq> frontmatter Blog_blockchain_blockchain_in_go_part_6"
  by (simp add: get_prop_def)

text \<open>
  C10. In every post the \<open>authors\<close> are a sequence of strings that is not empty and
  contains \<open>eddieho\<close>.
\<close>

theorem frontmatter_authors_include_eddieho:
  "authors_include ''eddieho'' (frontmatter p)"
  by (cases p) (simp_all add: authors_include_def get_prop_def)

theorem frontmatter_authors_include_eddieho_witness:
  "str_list_of (get_prop (frontmatter Blog_blockchain_in_go_part_4) ''authors'') = Some [''eddieho'']
   \<and> authors_include ''eddieho'' (frontmatter Blog_blockchain_in_go_part_4)"
  using frontmatter_authors_include_eddieho [of Blog_blockchain_in_go_part_4]
  by (simp add: get_prop_def)

text \<open>
  The posts name three authors between them. Every author reference resolves exactly when
  the list of defined authors has all three.
\<close>

lemma authors_resolve_iff:
  "(\<forall>p. authors_resolve authors_list (frontmatter p))
     \<longleftrightarrow> set [''eddieho'', ''sparrowhawk'', ''chatgpt''] \<subseteq> set authors_list"
proof
  assume all: "\<forall>p. authors_resolve authors_list (frontmatter p)"
  have "authors_resolve authors_list (frontmatter Blog_blockchain_in_go_1)"
    and "authors_resolve authors_list (frontmatter Unnamed_part_000)"
    using all by blast+
  then show "set [''eddieho'', ''sparrowhawk'', ''chatgpt''] \<subseteq> set authors_list"
    by (simp add: authors_resolve_def get_prop_def)
next
  assume sub: "set [''eddieho'', ''sparrowhawk'', ''chatgpt''] \<subseteq> set authors_list"
  show "\<forall>p. authors_resolve authors_list (frontmatter p)"
  proof
    fix p
    from sub show "authors_resolve authors_list (frontmatter p)"
      by (cases p) (simp_all add: authors_resolve_def get_prop_def)
  qed
qed

end
